theory Spec2Isabelle
  imports Main
begin

section \<open>Data model of AtracsysFusionTrackVrepPlugin\<close>

text \<open>
  The plugin is modelled by explicit state passing. A C++ \<open>int\<close> (simulator handle,
  geometry id) is an \<open>int\<close>: the class only compares such values and uses them as map keys,
  it never does arithmetic on them. Exceptions and fatal failures are values of \<open>error\<close>,
  every operation that can throw returns \<open>error + 'a\<close>.
\<close>

datatype error =
    runtime_error string      \<comment> \<open>\<open>std::runtime_error\<close> with its message\<close>
  | bad_lexical_cast          \<comment> \<open>thrown by \<open>boost::lexical_cast<int>\<close>\<close>
  | device_error string       \<comment> \<open>whatever the FusionTrack driver throws\<close>
  | system_error              \<comment> \<open>\<open>std::thread::join\<close> on a thread that is not joinable\<close>
  | null_dereference          \<comment> \<open>\<open>operator->\<close> or \<open>operator*\<close> on an empty smart pointer\<close>
  | verify_failed             \<comment> \<open>\<open>BOOST_VERIFY\<close> on a false condition\<close>
  | terminate_called          \<comment> \<open>exception escaping a thread function: \<open>std::terminate\<close>\<close>
  | missing_return            \<comment> \<open>control flows off the end of a function that returns a value\<close>

text \<open>\<open>MotionConfigParams\<close>: (ObjectToMove, FrameInWhichToMoveObject, ObjectBeingMeasured,
  GeometryID), all strings.\<close>

type_synonym MotionConfigParams = "string \<times> string \<times> string \<times> string"

text \<open>\<open>VrepMotionConfigTuple\<close>: the three resolved handles, indexed by the first three values
  of \<open>MotionConfigParamsIndex\<close>.\<close>

type_synonym VrepMotionConfigTuple = "int \<times> int \<times> int"

definition ObjectToMove :: "VrepMotionConfigTuple \<Rightarrow> int" where
  "ObjectToMove config = fst config"

definition FrameInWhichToMoveObject :: "VrepMotionConfigTuple \<Rightarrow> int" where
  "FrameInWhichToMoveObject config = fst (snd config)"

definition ObjectBeingMeasured :: "VrepMotionConfigTuple \<Rightarrow> int" where
  "ObjectBeingMeasured config = snd (snd config)"

type_synonym GeometryIDToVrepMotionConfigMap = "int \<rightharpoonup> VrepMotionConfigTuple"

text \<open>
  A marker of a frame: its geometry id, as the \<open>int\<close> key that \<open>std::map::find\<close> receives,
  and the rest of the device's measurement.
\<close>

record 'p ftkMarker =
  geometryId :: int
  measurement :: 'p

record 'p Frame =
  Markers :: "'p ftkMarker list"

text \<open>
  The collaborators the header calls but does not define: \<open>grl::vrep::getHandle\<close>,
  \<open>boost::lexical_cast<int>\<close>, \<open>sensor::ftkMarkerToAffine3f\<close> and
  \<open>Eigen::Affine3f::inverse\<close>. They are parameters of the model.
\<close>

record ('p, 't) collaborators =
  getHandle :: "string \<Rightarrow> error + int"
  lexical_cast_int :: "string \<Rightarrow> error + int"
  ftkMarkerToAffine3f :: "'p ftkMarker \<Rightarrow> 't"
  affine_inverse :: "'t \<Rightarrow> 't"

text \<open>\<open>Params\<close> without the driver's own parameters, which the model never reads.\<close>

record Params =
  OpticalTrackerBase :: string
  MotionConfigParamsVector :: "MotionConfigParams list"

definition emptyDefaultParams :: Params where
  "emptyDefaultParams =
     \<lparr>OpticalTrackerBase = ''OpticalTrackerBase#0'', MotionConfigParamsVector = []\<rparr>"

definition moveTrackerParams :: Params where
  "moveTrackerParams =
     \<lparr>OpticalTrackerBase = ''OpticalTrackerBase#0'',
      MotionConfigParamsVector =
        [(''Fiducial#22'', ''OpticalTrackerBase#0'', ''Fiducial#22'', ''22'')]\<rparr>"

definition moveBoneParams :: Params where
  "moveBoneParams =
     \<lparr>OpticalTrackerBase = ''OpticalTrackerBase#0'',
      MotionConfigParamsVector =
        [(''OpticalTrackerBase#0'', ''Fiducial#55'', ''Fiducial#55'', ''55'')]\<rparr>"

definition defaultParams :: Params where
  "defaultParams = moveBoneParams"

text \<open>
  The flatbuffer builder holds the messages serialised into it so far, in order; the offset
  \<open>grl::toFlatBuffer\<close> returns for a message is its position.
\<close>

type_synonym 'p FlatBufferBuilder = "'p Frame list"

text \<open>
  Where the thread running \<open>update\<close> is: before its \<open>try\<close> block, at the test of its
  \<open>while\<close> loop, returned from \<open>update\<close>, or ended by an exception that left \<open>update\<close>.
\<close>

datatype thread_phase = Starting | Looping | Exited | Crashed

text \<open>A \<open>std::thread\<close> running \<open>update\<close>: where it is, and whether it is still joinable.\<close>

record driver_thread =
  phase :: thread_phase
  driver_joinable :: bool

text \<open>A \<open>std::thread\<close> running \<open>saveLambdaFunction\<close>, with the lambda's captures.\<close>

record 'p save_thread =
  save_fbbP :: "'p FlatBufferBuilder option"
  save_KUKAiiwaFusionTrackMessageBufferP :: "nat list option"
  save_filename :: string
  save_finished :: bool
  save_joinable :: bool

record 'p plugin =
  plugin_params :: Params
  m_opticalTrackerBase :: int
  opticalTrackerP :: bool   \<comment> \<open>the pointer is non-null\<close>
  allHandlesSet :: bool
  isConnectionEstablished :: bool
  m_receivedFrame :: "'p Frame option"
  m_nextState :: "'p Frame option"
  m_logFileBufferBuilderP :: "'p FlatBufferBuilder option"
  m_KUKAiiwaFusionTrackMessageBufferP :: "nat list option"
  m_shouldStop :: bool
  m_isRecording :: bool
  exceptionPtr :: "error option"
  m_driverThread :: "driver_thread option"
  m_saveRecordingThreads :: "'p save_thread list"
  m_geometryIDToVrepMotionConfigMap :: GeometryIDToVrepMotionConfigMap

text \<open>
  The member \<open>params_\<close> is the field \<open>plugin_params\<close>, and \<open>isConnectionEstablished_\<close> is
  \<open>isConnectionEstablished\<close>. The constructor: \<open>m_isRecording\<close> has no initialiser in the class, so its first value is a
  parameter.
\<close>

definition AtracsysFusionTrackVrepPlugin :: "Params \<Rightarrow> bool \<Rightarrow> 'p plugin" where
  "AtracsysFusionTrackVrepPlugin params recording0 =
     \<lparr>plugin_params = params,
      m_opticalTrackerBase = - 1,
      opticalTrackerP = False,
      allHandlesSet = False,
      isConnectionEstablished = False,
      m_receivedFrame = None,
      m_nextState = None,
      m_logFileBufferBuilderP = None,
      m_KUKAiiwaFusionTrackMessageBufferP = None,
      m_shouldStop = False,
      m_isRecording = recording0,
      exceptionPtr = None,
      m_driverThread = None,
      m_saveRecordingThreads = [],
      m_geometryIDToVrepMotionConfigMap = Map.empty\<rparr>"

section \<open>The configuration map\<close>

text \<open>
  \<open>MotionConfigParamsAddConfig\<close>. The model takes the order of evaluation of C++17: the
  right operand of the assignment (the three handle lookups, here from left to right) comes
  before the subscript (the cast of the geometry id, then \<open>operator[]\<close>), so the entry
  is written only when all four calls returned, and a call that throws leaves the map as it
  was.
\<close>

definition MotionConfigParamsAddConfig ::
  "('p, 't) collaborators \<Rightarrow> MotionConfigParams \<Rightarrow> GeometryIDToVrepMotionConfigMap
     \<Rightarrow> error + GeometryIDToVrepMotionConfigMap" where
  "MotionConfigParamsAddConfig c motionConfig IDToHandleConfig =
     (case motionConfig of (objectToMove, frameInWhichToMoveObject, objectBeingMeasured, geometryID) \<Rightarrow>
        (case getHandle c objectToMove of Inl e \<Rightarrow> Inl e | Inr h0 \<Rightarrow>
        (case getHandle c frameInWhichToMoveObject of Inl e \<Rightarrow> Inl e | Inr h1 \<Rightarrow>
        (case getHandle c objectBeingMeasured of Inl e \<Rightarrow> Inl e | Inr h2 \<Rightarrow>
        (case lexical_cast_int c geometryID of Inl e \<Rightarrow> Inl e | Inr g \<Rightarrow>
           Inr (IDToHandleConfig(g \<mapsto> (h0, h1, h2))))))))"

fun MotionConfigParamsToVrepHandleConfigMap_loop ::
  "('p, 't) collaborators \<Rightarrow> MotionConfigParams list \<Rightarrow> GeometryIDToVrepMotionConfigMap
     \<Rightarrow> error + GeometryIDToVrepMotionConfigMap" where
  "MotionConfigParamsToVrepHandleConfigMap_loop c [] IDToHandleConfig = Inr IDToHandleConfig"
| "MotionConfigParamsToVrepHandleConfigMap_loop c (motionConfig # configurations) IDToHandleConfig =
     (case MotionConfigParamsAddConfig c motionConfig IDToHandleConfig of
        Inl e \<Rightarrow> Inl e
      | Inr m \<Rightarrow> MotionConfigParamsToVrepHandleConfigMap_loop c configurations m)"

definition MotionConfigParamsToVrepHandleConfigMap ::
  "('p, 't) collaborators \<Rightarrow> MotionConfigParams list \<Rightarrow> error + GeometryIDToVrepMotionConfigMap" where
  "MotionConfigParamsToVrepHandleConfigMap c configurations =
     MotionConfigParamsToVrepHandleConfigMap_loop c configurations Map.empty"

definition add_object ::
  "('p, 't) collaborators \<Rightarrow> MotionConfigParams \<Rightarrow> 'p plugin \<Rightarrow> (error + unit) \<times> 'p plugin" where
  "add_object c mcp s =
     (case MotionConfigParamsAddConfig c mcp (m_geometryIDToVrepMotionConfigMap s) of
        Inl e \<Rightarrow> (Inl e, s)
      | Inr m \<Rightarrow> (Inr (), s\<lparr>m_geometryIDToVrepMotionConfigMap := m\<rparr>))"

definition clear_objects :: "'p plugin \<Rightarrow> 'p plugin" where
  "clear_objects s = s\<lparr>m_geometryIDToVrepMotionConfigMap := Map.empty\<rparr>"

text \<open>\<open>remove_geometry(int)\<close>: \<open>std::map::erase\<close> by key.\<close>

definition remove_geometry :: "int \<Rightarrow> 'p plugin \<Rightarrow> 'p plugin" where
  "remove_geometry GeometryID s =
     s\<lparr>m_geometryIDToVrepMotionConfigMap := (m_geometryIDToVrepMotionConfigMap s)(GeometryID := None)\<rparr>"

text \<open>\<open>remove_geometry(std::string)\<close>: the cast may throw.\<close>

definition remove_geometry_string ::
  "('p, 't) collaborators \<Rightarrow> string \<Rightarrow> 'p plugin \<Rightarrow> (error + unit) \<times> 'p plugin" where
  "remove_geometry_string c GeometryID s =
     (case lexical_cast_int c GeometryID of
        Inl e \<Rightarrow> (Inl e, s)
      | Inr g \<Rightarrow> (Inr (), remove_geometry g s))"

definition initHandles :: "('p, 't) collaborators \<Rightarrow> 'p plugin \<Rightarrow> (error + unit) \<times> 'p plugin" where
  "initHandles c s =
     (case getHandle c (OpticalTrackerBase (plugin_params s)) of
        Inl e \<Rightarrow> (Inl e, s)
      | Inr b \<Rightarrow>
          (let s1 = s\<lparr>m_opticalTrackerBase := b\<rparr> in
           case MotionConfigParamsToVrepHandleConfigMap c (MotionConfigParamsVector (plugin_params s1)) of
             Inl e \<Rightarrow> (Inl e, s1)
           | Inr m \<Rightarrow> (Inr (), s1\<lparr>m_geometryIDToVrepMotionConfigMap := m, allHandlesSet := True\<rparr>)))"

section \<open>The update step\<close>

definition unsupported_message :: string where
  "unsupported_message =
     ''AtracsysFusionTrackVrepPlugin: moving objects other than those being measured and the base itself are not yet supported.''"

text \<open>A call of \<open>setObjectTransform\<close> is recorded in the simulator's log of calls.\<close>

type_synonym 't transform_call = "int \<times> int \<times> 't"

definition setObjectTransform :: "int \<Rightarrow> int \<Rightarrow> 't \<Rightarrow> 't transform_call list \<Rightarrow> 't transform_call list" where
  "setObjectTransform objectToMove frame t calls = calls @ [(objectToMove, frame, t)]"

text \<open>
  The body of the loop over the markers in \<open>run_one\<close>, and the loop. The log of calls is
  threaded through: a throw leaves the calls made so far in it.
\<close>

fun run_one_markers ::
  "('p, 't) collaborators \<Rightarrow> int \<Rightarrow> GeometryIDToVrepMotionConfigMap \<Rightarrow> 'p ftkMarker list
     \<Rightarrow> 't transform_call list \<Rightarrow> (error + unit) \<times> 't transform_call list" where
  "run_one_markers c base cfg [] calls = (Inr (), calls)"
| "run_one_markers c base cfg (marker # rest) calls =
     (let cameraToMarkerTransform = ftkMarkerToAffine3f c marker in
      case cfg (geometryId marker) of
        None \<Rightarrow> run_one_markers c base cfg rest calls
      | Some config \<Rightarrow>
          if base = ObjectToMove config \<and>
             FrameInWhichToMoveObject config = ObjectBeingMeasured config
          then run_one_markers c base cfg rest
                 (setObjectTransform (ObjectToMove config) (FrameInWhichToMoveObject config)
                    (affine_inverse c cameraToMarkerTransform) calls)
          else if FrameInWhichToMoveObject config \<noteq> base
          then (Inl (runtime_error unsupported_message), calls)
          else run_one_markers c base cfg rest
                 (setObjectTransform (ObjectToMove config) (FrameInWhichToMoveObject config)
                    cameraToMarkerTransform calls))"

text \<open>
  \<open>run_one\<close>. It changes no member of the plugin, so it returns only its outcome and the
  simulator's log of calls. \<open>BOOST_VERIFY\<close> is taken as checked.
\<close>

definition run_one ::
  "('p, 't) collaborators \<Rightarrow> 'p plugin \<Rightarrow> 't transform_call list
     \<Rightarrow> (error + unit) \<times> 't transform_call list" where
  "run_one c s calls =
     (case exceptionPtr s of
        Some e \<Rightarrow> (Inl e, calls)
      | None \<Rightarrow>
          if \<not> isConnectionEstablished s \<or> \<not> allHandlesSet s then (Inr (), calls)
          else (case m_receivedFrame s of
                  None \<Rightarrow> (Inl verify_failed, calls)
                | Some frame \<Rightarrow>
                    if m_nextState s = None \<or> \<not> opticalTrackerP s then (Inl verify_failed, calls)
                    else run_one_markers c (m_opticalTrackerBase s)
                           (m_geometryIDToVrepMotionConfigMap s) (Markers frame) calls))"

section \<open>Status and recording\<close>

definition is_active :: "'p plugin \<Rightarrow> bool" where
  "is_active s \<longleftrightarrow>
     allHandlesSet s \<and> exceptionPtr s = None \<and> opticalTrackerP s \<and> isConnectionEstablished s"

definition is_recording :: "'p plugin \<Rightarrow> bool" where
  "is_recording s \<longleftrightarrow> is_active s \<and> m_isRecording s"

definition start_recording :: "'p plugin \<Rightarrow> bool \<times> 'p plugin" where
  "start_recording s = (let s1 = s\<lparr>m_isRecording := True\<rparr> in (m_isRecording s1, s1))"

definition stop_recording :: "'p plugin \<Rightarrow> bool \<times> 'p plugin" where
  "stop_recording s = (let s1 = s\<lparr>m_isRecording := False\<rparr> in (\<not> m_isRecording s1, s1))"

text \<open>
  \<open>save_recording\<close>. \<open>now\<close> is what \<open>current_date_and_time_string()\<close> returns at the call.
  The lambda's captures move the two buffer pointers out of the plugin, the thread is
  started and kept, and the plugin gets a new builder and a new vector. The function is
  declared \<open>bool\<close> and has no \<open>return\<close> statement on any path: after the last assignment
  control flows off its end, which is undefined behaviour. The model gives the state the
  body leaves behind and, as the outcome of the call, that failure; no value is returned.
\<close>

definition save_recording ::
  "string \<Rightarrow> string \<Rightarrow> 'p plugin \<Rightarrow> (error + bool) \<times> 'p plugin" where
  "save_recording filename now s =
     (let filename1 = (if filename = [] then now @ ''FusionTrack.flik'' else filename);
          saveLogThread =
            \<lparr>save_fbbP = m_logFileBufferBuilderP s,
             save_KUKAiiwaFusionTrackMessageBufferP = m_KUKAiiwaFusionTrackMessageBufferP s,
             save_filename = filename1,
             save_finished = False,
             save_joinable = True\<rparr>
      in (Inl missing_return,
          s\<lparr>m_saveRecordingThreads := m_saveRecordingThreads s @ [saveLogThread],
            m_logFileBufferBuilderP := Some [],
            m_KUKAiiwaFusionTrackMessageBufferP := Some []\<rparr>))"

definition clear_recording :: "'p plugin \<Rightarrow> 'p plugin" where
  "clear_recording s =
     s\<lparr>m_logFileBufferBuilderP := None, m_KUKAiiwaFusionTrackMessageBufferP := None\<rparr>"

text \<open>
  A saved file holds the finished buffer: the messages serialised into the builder, and the
  vector of the offsets of the logged ones.
\<close>

type_synonym 'p log_file = "'p FlatBufferBuilder \<times> nat list"

text \<open>
  The body of \<open>saveLambdaFunction\<close>, run by the save thread: both captured pointers are
  dereferenced at once, then the finished buffer is written under the captured file name.
\<close>

definition saveLambdaFunction ::
  "'p save_thread \<Rightarrow> (string \<rightharpoonup> 'p log_file) \<Rightarrow> error + (string \<rightharpoonup> 'p log_file)" where
  "saveLambdaFunction th files =
     (case save_fbbP th of
        None \<Rightarrow> Inl null_dereference
      | Some fbb \<Rightarrow>
          (case save_KUKAiiwaFusionTrackMessageBufferP th of
             None \<Rightarrow> Inl null_dereference
           | Some states \<Rightarrow> Inr (files(save_filename th \<mapsto> (fbb, states)))))"

section \<open>The acquisition thread\<close>

text \<open>
  What the device does in the \<open>try\<close> block of \<open>update\<close>: the constructor of the driver
  throws, or one of the two calls of \<open>makeFramePtr\<close> throws, or all three return.
\<close>

datatype 'p connect_outcome =
    CtorThrows error
  | FirstFramePtrThrows error
  | SecondFramePtrThrows "'p Frame" error
  | Connected "'p Frame" "'p Frame"

definition update_try :: "'p connect_outcome \<Rightarrow> 'p plugin \<Rightarrow> 'p plugin" where
  "update_try co s =
     (case co of
        CtorThrows e \<Rightarrow> s\<lparr>exceptionPtr := Some e, m_shouldStop := True\<rparr>
      | FirstFramePtrThrows e \<Rightarrow>
          s\<lparr>opticalTrackerP := True, exceptionPtr := Some e, m_shouldStop := True\<rparr>
      | SecondFramePtrThrows f1 e \<Rightarrow>
          s\<lparr>opticalTrackerP := True, m_receivedFrame := Some f1,
            exceptionPtr := Some e, m_shouldStop := True\<rparr>
      | Connected f1 f2 \<Rightarrow>
          s\<lparr>opticalTrackerP := True, m_receivedFrame := Some f1, m_nextState := Some f2,
            isConnectionEstablished := True\<rparr>)"

text \<open>\<open>grl::toFlatBuffer\<close>: the message is appended to the builder, its offset is returned.\<close>

definition toFlatBuffer :: "'p FlatBufferBuilder \<Rightarrow> 'p Frame \<Rightarrow> 'p FlatBufferBuilder \<times> nat" where
  "toFlatBuffer fbb frame = (fbb @ [frame], length fbb)"

text \<open>
  One pass through the body of the \<open>while\<close> loop of \<open>update\<close>; \<open>rx\<close> is what
  \<open>receive\<close> does: it throws, or it fills the frame behind \<open>m_nextState\<close>. The call of
  \<open>receive\<close> is outside every \<open>try\<close> block.
\<close>

definition update_body :: "error + 'p Frame \<Rightarrow> 'p plugin \<Rightarrow> (error + unit) \<times> 'p plugin" where
  "update_body rx s =
     (if \<not> opticalTrackerP s \<or> m_nextState s = None then (Inl null_dereference, s)
      else case rx of
        Inl e \<Rightarrow> (Inl terminate_called, s)
      | Inr frame \<Rightarrow>
          (let s1 = s\<lparr>m_nextState := Some frame\<rparr> in
           if m_isRecording s1 then
             (let s2 = (if m_logFileBufferBuilderP s1 = None
                        then s1\<lparr>m_logFileBufferBuilderP := Some [],
                                m_KUKAiiwaFusionTrackMessageBufferP := Some []\<rparr>
                        else s1)
              in case m_logFileBufferBuilderP s2 of
                   None \<Rightarrow> (Inl verify_failed, s2)
                 | Some fbb \<Rightarrow>
                     (let (fbb1, oneKUKAiiwaFusionTrackMessage) = toFlatBuffer fbb frame;
                          s3 = s2\<lparr>m_logFileBufferBuilderP := Some fbb1\<rparr>
                      in case m_KUKAiiwaFusionTrackMessageBufferP s3 of
                           None \<Rightarrow> (Inl null_dereference, s3)
                         | Some v \<Rightarrow>
                             (Inr (), s3\<lparr>m_KUKAiiwaFusionTrackMessageBufferP :=
                                            Some (v @ [oneKUKAiiwaFusionTrackMessage]),
                                          m_receivedFrame := m_nextState s3,
                                          m_nextState := m_receivedFrame s3\<rparr>)))
           else (Inr (), s1\<lparr>m_receivedFrame := m_nextState s1,
                              m_nextState := m_receivedFrame s1\<rparr>)))"

text \<open>
  One step of the thread running \<open>update\<close>: the \<open>try\<close> block when it has not run yet,
  otherwise the test of the loop and, when \<open>m_shouldStop\<close> is not set, one pass.
\<close>

definition update_step ::
  "'p connect_outcome \<Rightarrow> error + 'p Frame \<Rightarrow> 'p plugin \<Rightarrow> (error + unit) \<times> 'p plugin" where
  "update_step co rx s =
     (case m_driverThread s of
        None \<Rightarrow> (Inr (), s)
      | Some th \<Rightarrow>
          (case phase th of
             Starting \<Rightarrow> (Inr (), (update_try co s)\<lparr>m_driverThread := Some (th\<lparr>phase := Looping\<rparr>)\<rparr>)
           | Looping \<Rightarrow>
               if m_shouldStop s
               then (Inr (), s\<lparr>m_driverThread := Some (th\<lparr>phase := Exited\<rparr>)\<rparr>)
               else (case update_body rx s of
                       (Inl e, s1) \<Rightarrow> (Inl e, s1\<lparr>m_driverThread := Some (th\<lparr>phase := Crashed\<rparr>)\<rparr>)
                     | (Inr u, s1) \<Rightarrow> (Inr (), s1))
           | Exited \<Rightarrow> (Inr (), s)
           | Crashed \<Rightarrow> (Inr (), s)))"

section \<open>Start and shutdown\<close>

text \<open>
  \<open>construct\<close>. Replacing a thread object that is still joinable destroys it, which ends
  the process.
\<close>

definition construct :: "('p, 't) collaborators \<Rightarrow> 'p plugin \<Rightarrow> (error + unit) \<times> 'p plugin" where
  "construct c s =
     (case initHandles c s of
        (Inl e, s1) \<Rightarrow> (Inl e, s1)
      | (Inr u, s1) \<Rightarrow>
          (case m_driverThread s1 of
             Some th \<Rightarrow>
               if driver_joinable th then (Inl terminate_called, s1)
               else (Inr (), s1\<lparr>m_driverThread := Some \<lparr>phase = Starting, driver_joinable = True\<rparr>\<rparr>)
           | None \<Rightarrow>
               (Inr (), s1\<lparr>m_driverThread := Some \<lparr>phase = Starting, driver_joinable = True\<rparr>\<rparr>)))"

text \<open>
  \<open>m_driverThread->join()\<close> as \<open>destruct\<close> calls it, with \<open>m_shouldStop\<close> already set:
  on an empty pointer it is a null dereference, on a thread that is not joinable it throws;
  otherwise the thread runs to its end (its \<open>try\<close> block when that has not run yet, then the
  loop's test fails) and is joined.
\<close>

definition m_driverThread_join ::
  "'p connect_outcome \<Rightarrow> 'p plugin \<Rightarrow> (error + unit) \<times> 'p plugin" where
  "m_driverThread_join co s =
     (case m_driverThread s of
        None \<Rightarrow> (Inl null_dereference, s)
      | Some th \<Rightarrow>
          if \<not> driver_joinable th then (Inl system_error, s)
          else (case phase th of
                  Crashed \<Rightarrow> (Inl terminate_called, s)
                | Starting \<Rightarrow>
                    (Inr (), (update_try co s)\<lparr>m_driverThread :=
                                Some \<lparr>phase = Exited, driver_joinable = False\<rparr>\<rparr>)
                | Looping \<Rightarrow>
                    (Inr (), s\<lparr>m_driverThread := Some \<lparr>phase = Exited, driver_joinable = False\<rparr>\<rparr>)
                | Exited \<Rightarrow>
                    (Inr (), s\<lparr>m_driverThread := Some \<lparr>phase = Exited, driver_joinable = False\<rparr>\<rparr>)))"

text \<open>
  The loop of \<open>destruct\<close> over \<open>m_saveRecordingThreads\<close>: its body does not use the loop
  variable \<open>saveThreadP\<close>, it calls \<open>m_driverThread->join()\<close>.
\<close>

fun destruct_loop ::
  "'p connect_outcome \<Rightarrow> 'p save_thread list \<Rightarrow> 'p plugin \<Rightarrow> (error + unit) \<times> 'p plugin" where
  "destruct_loop co [] s = (Inr (), s)"
| "destruct_loop co (saveThreadP # rest) s =
     (case m_driverThread_join co s of
        (Inl e, s1) \<Rightarrow> (Inl e, s1)
      | (Inr u, s1) \<Rightarrow> destruct_loop co rest s1)"

definition destruct :: "'p connect_outcome \<Rightarrow> 'p plugin \<Rightarrow> (error + unit) \<times> 'p plugin" where
  "destruct co s =
     (let s1 = s\<lparr>m_shouldStop := True\<rparr> in
      case (if m_driverThread s1 \<noteq> None then m_driverThread_join co s1 else (Inr (), s1)) of
        (Inl e, s2) \<Rightarrow> (Inl e, s2)
      | (Inr u, s2) \<Rightarrow> destruct_loop co (m_saveRecordingThreads s2) s2)"

section \<open>The plugin and its threads as one transition system\<close>

text \<open>
  The consumer's calls, the steps of the acquisition thread and the runs of the save threads
  are interleaved as events. The parts of \<open>update\<close> and of the other members that hold
  \<open>m_frameAccess\<close> are atomic, so an event is one such part; \<open>receive\<close> writes only the
  frame behind \<open>m_nextState\<close>, which no other thread reads, and is taken together with the
  locked part that follows it. The world is the plugin, the files written so far, the
  simulator's log of \<open>setObjectTransform\<close> calls, and whether the process was ended.
\<close>

record ('p, 't) world =
  plugin_of :: "'p plugin"
  files :: "string \<rightharpoonup> 'p log_file"
  vrep_calls :: "'t transform_call list"
  aborted :: "error option"

datatype 'p event =
    Construct
  | Destruct "'p connect_outcome"
  | AddObject MotionConfigParams
  | ClearObjects
  | RemoveGeometry int
  | RemoveGeometryString string
  | IsActive
  | IsRecording
  | RunOne
  | StartRecording
  | StopRecording
  | SaveRecording string string
  | ClearRecording
  | DriverStep "'p connect_outcome" "error + 'p Frame"
  | SaveStep nat

text \<open>
  The failures that are no C++ exception: they end the process, or leave what it does next
  undefined. After one of them the world stays as it is.
\<close>

definition fatal :: "error \<Rightarrow> bool" where
  "fatal e \<longleftrightarrow>
     e = null_dereference \<or> e = verify_failed \<or> e = terminate_called \<or> e = missing_return"

definition settle :: "(error + unit) \<times> 'p plugin \<Rightarrow> ('p, 't) world \<Rightarrow> ('p, 't) world" where
  "settle r w =
     w\<lparr>plugin_of := snd r,
       aborted := (case fst r of Inl e \<Rightarrow> if fatal e then Some e else None | Inr u \<Rightarrow> None)\<rparr>"

definition save_step :: "nat \<Rightarrow> ('p, 't) world \<Rightarrow> ('p, 't) world" where
  "save_step i w =
     (let s = plugin_of w; ths = m_saveRecordingThreads s in
      if i < length ths \<and> \<not> save_finished (ths ! i) then
        (case saveLambdaFunction (ths ! i) (files w) of
           Inl e \<Rightarrow> w\<lparr>aborted := Some e\<rparr>
         | Inr fs \<Rightarrow>
             w\<lparr>plugin_of := s\<lparr>m_saveRecordingThreads := ths[i := (ths ! i)\<lparr>save_finished := True\<rparr>]\<rparr>,
               files := fs\<rparr>)
      else w)"

definition step :: "('p, 't) collaborators \<Rightarrow> 'p event \<Rightarrow> ('p, 't) world \<Rightarrow> ('p, 't) world" where
  "step c ev w =
     (if aborted w \<noteq> None then w
      else case ev of
        Construct \<Rightarrow> settle (construct c (plugin_of w)) w
      | Destruct co \<Rightarrow> settle (destruct co (plugin_of w)) w
      | AddObject mcp \<Rightarrow> settle (add_object c mcp (plugin_of w)) w
      | ClearObjects \<Rightarrow> w\<lparr>plugin_of := clear_objects (plugin_of w)\<rparr>
      | RemoveGeometry g \<Rightarrow> w\<lparr>plugin_of := remove_geometry g (plugin_of w)\<rparr>
      | RemoveGeometryString g \<Rightarrow> settle (remove_geometry_string c g (plugin_of w)) w
      | IsActive \<Rightarrow> w
      | IsRecording \<Rightarrow> w
      | RunOne \<Rightarrow>
          (case run_one c (plugin_of w) (vrep_calls w) of
             (r, calls) \<Rightarrow> settle (r, plugin_of w) (w\<lparr>vrep_calls := calls\<rparr>))
      | StartRecording \<Rightarrow> w\<lparr>plugin_of := snd (start_recording (plugin_of w))\<rparr>
      | StopRecording \<Rightarrow> w\<lparr>plugin_of := snd (stop_recording (plugin_of w))\<rparr>
      | SaveRecording filename now \<Rightarrow>
          (case save_recording filename now (plugin_of w) of
             (Inl e, s1) \<Rightarrow> settle (Inl e, s1) w
           | (Inr b, s1) \<Rightarrow> settle (Inr (), s1) w)
      | ClearRecording \<Rightarrow> w\<lparr>plugin_of := clear_recording (plugin_of w)\<rparr>
      | DriverStep co rx \<Rightarrow> settle (update_step co rx (plugin_of w)) w
      | SaveStep i \<Rightarrow> save_step i w)"

fun run_events :: "('p, 't) collaborators \<Rightarrow> 'p event list \<Rightarrow> ('p, 't) world \<Rightarrow> ('p, 't) world" where
  "run_events c [] w = w"
| "run_events c (ev # evs) w = run_events c evs (step c ev w)"

definition initial_world :: "Params \<Rightarrow> bool \<Rightarrow> ('p, 't) world" where
  "initial_world params recording0 =
     \<lparr>plugin_of = AtracsysFusionTrackVrepPlugin params recording0,
      files = Map.empty, vrep_calls = [], aborted = None\<rparr>"

section \<open>Sequences of configuration calls\<close>

datatype config_call =
    add_object_call MotionConfigParams
  | remove_geometry_call int
  | remove_geometry_string_call string
  | clear_objects_call

text \<open>A call that throws leaves the plugin to its caller as it is then.\<close>

fun config_call_apply :: "('p, 't) collaborators \<Rightarrow> config_call \<Rightarrow> 'p plugin \<Rightarrow> 'p plugin" where
  "config_call_apply c (add_object_call mcp) s = snd (add_object c mcp s)"
| "config_call_apply c (remove_geometry_call g) s = remove_geometry g s"
| "config_call_apply c (remove_geometry_string_call g) s = snd (remove_geometry_string c g s)"
| "config_call_apply c clear_objects_call s = clear_objects s"

fun config_calls :: "('p, 't) collaborators \<Rightarrow> config_call list \<Rightarrow> 'p plugin \<Rightarrow> 'p plugin" where
  "config_calls c [] s = s"
| "config_calls c (call # calls) s = config_calls c calls (config_call_apply c call s)"

text \<open>
  The words of the specification about the map, for comparison with the code. A call
  \<^emph>\<open>adds\<close> a geometry id with a configuration when it is an add whose geometry id parses to
  that id and whose three names resolve to that configuration. A call \<^emph>\<open>removes\<close> a
  geometry id when it is a clear, or a remove whose argument is, or parses to, that id.
\<close>

fun spec_adds ::
  "('p, 't) collaborators \<Rightarrow> config_call \<Rightarrow> int \<Rightarrow> VrepMotionConfigTuple \<Rightarrow> bool" where
  "spec_adds c (add_object_call (mv, fr, ms, gid)) g cfg \<longleftrightarrow>
     lexical_cast_int c gid = Inr g \<and>
     getHandle c mv = Inr (fst cfg) \<and> getHandle c fr = Inr (fst (snd cfg)) \<and>
     getHandle c ms = Inr (snd (snd cfg))"
| "spec_adds c other g cfg \<longleftrightarrow> False"

fun spec_removes :: "('p, 't) collaborators \<Rightarrow> config_call \<Rightarrow> int \<Rightarrow> bool" where
  "spec_removes c (remove_geometry_call g') g \<longleftrightarrow> g' = g"
| "spec_removes c (remove_geometry_string_call gid) g \<longleftrightarrow> lexical_cast_int c gid = Inr g"
| "spec_removes c clear_objects_call g \<longleftrightarrow> True"
| "spec_removes c (add_object_call mcp) g \<longleftrightarrow> False"

definition spec_touches :: "('p, 't) collaborators \<Rightarrow> config_call \<Rightarrow> int \<Rightarrow> bool" where
  "spec_touches c call g \<longleftrightarrow> spec_removes c call g \<or> (\<exists>cfg. spec_adds c call g cfg)"

section \<open>The words of the specification about the update step\<close>

text \<open>
  The inversion condition, the unsupported case and the call a configured marker is to
  produce, as the specification words them, for comparison with \<open>run_one\<close>.
\<close>

definition inversion_condition :: "int \<Rightarrow> VrepMotionConfigTuple \<Rightarrow> bool" where
  "inversion_condition base config \<longleftrightarrow>
     ObjectToMove config = base \<and> FrameInWhichToMoveObject config = ObjectBeingMeasured config"

definition unsupported_configuration :: "int \<Rightarrow> VrepMotionConfigTuple \<Rightarrow> bool" where
  "unsupported_configuration base config \<longleftrightarrow>
     \<not> inversion_condition base config \<and> FrameInWhichToMoveObject config \<noteq> base"

definition marker_unsupported ::
  "int \<Rightarrow> GeometryIDToVrepMotionConfigMap \<Rightarrow> 'p ftkMarker \<Rightarrow> bool" where
  "marker_unsupported base cfg marker \<longleftrightarrow>
     (case cfg (geometryId marker) of
        None \<Rightarrow> False
      | Some config \<Rightarrow> unsupported_configuration base config)"

definition spec_call ::
  "('p, 't) collaborators \<Rightarrow> int \<Rightarrow> GeometryIDToVrepMotionConfigMap \<Rightarrow> 'p ftkMarker
     \<Rightarrow> 't transform_call option" where
  "spec_call c base cfg marker =
     (case cfg (geometryId marker) of
        None \<Rightarrow> None
      | Some config \<Rightarrow>
          Some (ObjectToMove config, FrameInWhichToMoveObject config,
                if inversion_condition base config
                then affine_inverse c (ftkMarkerToAffine3f c marker)
                else ftkMarkerToAffine3f c marker))"

definition tick_reaches_markers :: "'p plugin \<Rightarrow> 'p Frame \<Rightarrow> bool" where
  "tick_reaches_markers s frame \<longleftrightarrow>
     exceptionPtr s = None \<and> isConnectionEstablished s \<and> allHandlesSet s \<and>
     opticalTrackerP s \<and> m_receivedFrame s = Some frame \<and> m_nextState s \<noteq> None"

text \<open>
  The state the plugin is in once a fault was captured: the fault is stored, the loop is
  told to stop, the two frames are what they were, and the thread is at the loop's test or
  has returned.
\<close>

definition fault_kept :: "error \<Rightarrow> 'p Frame option \<Rightarrow> 'p Frame option \<Rightarrow> 'p plugin \<Rightarrow> bool" where
  "fault_kept e rf ns s \<longleftrightarrow>
     exceptionPtr s = Some e \<and> m_shouldStop s \<and>
     m_receivedFrame s = rf \<and> m_nextState s = ns \<and>
     (m_driverThread s = Some \<lparr>phase = Looping, driver_joinable = True\<rparr> \<or>
      m_driverThread s = Some \<lparr>phase = Exited, driver_joinable = True\<rparr>)"

text \<open>Which fault a failed connection leaves behind.\<close>

fun connect_fault :: "'p connect_outcome \<Rightarrow> error option" where
  "connect_fault (CtorThrows e) = Some e"
| "connect_fault (FirstFramePtrThrows e) = Some e"
| "connect_fault (SecondFramePtrThrows f1 e) = Some e"
| "connect_fault (Connected f1 f2) = None"

fun is_Destruct :: "'p event \<Rightarrow> bool" where
  "is_Destruct (Destruct co) = True"
| "is_Destruct ev = False"

section \<open>Test doubles for the collaborators\<close>

text \<open>
  A simulator that knows three objects, a cast that knows two numerals, measurements that
  are integers, and negation as the inverse. They serve to run the model on concrete inputs.
\<close>

definition sample_getHandle :: "string \<Rightarrow> error + int" where
  "sample_getHandle name =
     (if name = ''OpticalTrackerBase#0'' then Inr 1
      else if name = ''Fiducial#55'' then Inr 2
      else if name = ''Fiducial#22'' then Inr 3
      else Inl (runtime_error ''getHandle: Handle is not valid''))"

definition sample_lexical_cast_int :: "string \<Rightarrow> error + int" where
  "sample_lexical_cast_int str =
     (if str = ''55'' then Inr 55
      else if str = ''22'' then Inr 22
      else Inl bad_lexical_cast)"

definition sample_collaborators :: "(int, int) collaborators" where
  "sample_collaborators =
     \<lparr>getHandle = sample_getHandle,
      lexical_cast_int = sample_lexical_cast_int,
      ftkMarkerToAffine3f = measurement,
      affine_inverse = uminus\<rparr>"

text \<open>Frames and worlds reached by running events from the initial world.\<close>

definition sample_empty_frame :: "int Frame" where
  "sample_empty_frame = \<lparr>Markers = []\<rparr>"

definition sample_frame55 :: "int Frame" where
  "sample_frame55 = \<lparr>Markers = [\<lparr>geometryId = 55, measurement = 7\<rparr>]\<rparr>"

definition sample_frame_mixed :: "int Frame" where
  "sample_frame_mixed =
     \<lparr>Markers = [\<lparr>geometryId = 55, measurement = 7\<rparr>, \<lparr>geometryId = 9, measurement = 4\<rparr>,
                 \<lparr>geometryId = 22, measurement = 5\<rparr>, \<lparr>geometryId = 55, measurement = 8\<rparr>]\<rparr>"

definition sample_start :: "int event list" where
  "sample_start =
     [Construct,
      AddObject (''OpticalTrackerBase#0'', ''Fiducial#55'', ''Fiducial#55'', ''55''),
      DriverStep (Connected sample_empty_frame sample_empty_frame) (Inr sample_empty_frame)]"

definition sample_world55 :: "(int, int) world" where
  "sample_world55 =
     run_events sample_collaborators
       (sample_start @ [DriverStep (Connected sample_empty_frame sample_empty_frame) (Inr sample_frame55)])
       (initial_world emptyDefaultParams False)"

definition sample_world_mixed :: "(int, int) world" where
  "sample_world_mixed =
     run_events sample_collaborators
       (sample_start @
        [AddObject (''Fiducial#22'', ''Fiducial#55'', ''Fiducial#22'', ''22''),
         DriverStep (Connected sample_empty_frame sample_empty_frame) (Inr sample_frame_mixed)])
       (initial_world emptyDefaultParams False)"

definition sample_world_failed :: "(int, int) world" where
  "sample_world_failed =
     run_events sample_collaborators
       [Construct, DriverStep (CtorThrows (device_error ''no device'')) (Inr sample_empty_frame)]
       (initial_world emptyDefaultParams False)"

definition sample_config_calls :: "config_call list" where
  "sample_config_calls =
     [add_object_call (''Fiducial#22'', ''OpticalTrackerBase#0'', ''Fiducial#22'', ''55''),
      add_object_call (''OpticalTrackerBase#0'', ''Fiducial#55'', ''Fiducial#55'', ''55''),
      add_object_call (''Fiducial#22'', ''OpticalTrackerBase#0'', ''Fiducial#22'', ''22''),
      remove_geometry_string_call ''22'',
      remove_geometry_call 7]"

definition sample_world_recorded :: "(int, int) world" where
  "sample_world_recorded =
     run_events sample_collaborators
       (sample_start @
        [StartRecording,
         DriverStep (Connected sample_empty_frame sample_empty_frame) (Inr sample_frame55)])
       (initial_world emptyDefaultParams False)"

definition sample_world_saving :: "(int, int) world" where
  "sample_world_saving =
     step sample_collaborators (SaveRecording ''log.flik'' ''2017-01-01'') sample_world_recorded"

section \<open>Properties of the configuration map\<close>

lemma apply_map_iff:
  "m_geometryIDToVrepMotionConfigMap (config_call_apply c call s) g = Some cfg \<longleftrightarrow>
     spec_adds c call g cfg \<or> (\<not> spec_touches c call g \<and> m_geometryIDToVrepMotionConfigMap s g = Some cfg)"
  apply (cases call)
  apply (auto simp: spec_touches_def add_object_def MotionConfigParamsAddConfig_def remove_geometry_def remove_geometry_string_def clear_objects_def split: sum.splits prod.splits)
  done

lemma decomp_Cons:
  "(\<exists>pre call post. x # xs = pre @ call # post \<and> P call post) \<longleftrightarrow>
   P x xs \<or> (\<exists>pre call post. xs = pre @ call # post \<and> P call post)"
proof
  assume "\<exists>pre call post. x # xs = pre @ call # post \<and> P call post"
  then obtain pre call post where eq: "x # xs = pre @ call # post" and p: "P call post" by blast
  show "P x xs \<or> (\<exists>pre call post. xs = pre @ call # post \<and> P call post)"
  proof (cases pre)
    case Nil
    with eq p show ?thesis by simp
  next
    case (Cons y ys)
    with eq have "xs = ys @ call # post" by simp
    with p show ?thesis by blast
  qed
next
  assume "P x xs \<or> (\<exists>pre call post. xs = pre @ call # post \<and> P call post)"
  then show "\<exists>pre call post. x # xs = pre @ call # post \<and> P call post"
  proof
    assume "P x xs"
    then have "x # xs = [] @ x # xs \<and> P x xs" by simp
    then show ?thesis by blast
  next
    assume "\<exists>pre call post. xs = pre @ call # post \<and> P call post"
    then obtain pre call post where "xs = pre @ call # post" "P call post" by blast
    then have "x # xs = (x # pre) @ call # post \<and> P call post" by simp
    then show ?thesis by blast
  qed
qed

lemma calls_map_iff:
  "m_geometryIDToVrepMotionConfigMap (config_calls c calls s) g = Some cfg \<longleftrightarrow>
     (\<exists>pre call post. calls = pre @ call # post \<and> spec_adds c call g cfg \<and> (\<forall>x\<in>set post. \<not> spec_touches c x g))
     \<or> (m_geometryIDToVrepMotionConfigMap s g = Some cfg \<and> (\<forall>x\<in>set calls. \<not> spec_touches c x g))"
proof (induction calls arbitrary: s)
  case Nil
  then show ?case by simp
next
  case (Cons x xs)
  have adds_touches: "spec_adds c x g cfg \<Longrightarrow> spec_touches c x g"
    unfolding spec_touches_def by blast
  show ?case
    unfolding config_calls.simps Cons.IH apply_map_iff
      decomp_Cons [where P = "\<lambda>call post. spec_adds c call g cfg \<and> (\<forall>x\<in>set post. \<not> spec_touches c x g)"]
    using adds_touches by auto
qed

section \<open>Properties of the update step\<close>

lemma run_one_markers_supported_prefix:
  "(\<forall>m\<in>set pre. \<not> marker_unsupported base cfg m) \<Longrightarrow>
   run_one_markers c base cfg (pre @ rest) calls =
     run_one_markers c base cfg rest (calls @ List.map_filter (spec_call c base cfg) pre)"
proof (induction pre arbitrary: calls)
  case Nil
  then show ?case by simp
next
  case (Cons m pre)
  from Cons.prems have m: "\<not> marker_unsupported base cfg m"
    and pre: "\<forall>m\<in>set pre. \<not> marker_unsupported base cfg m" by simp_all
  show ?case
  proof (cases "cfg (geometryId m)")
    case None
    then show ?thesis
      using Cons.IH [OF pre] by (simp add: spec_call_def)
  next
    case (Some config)
    with m have sup: "\<not> unsupported_configuration base config"
      by (simp add: marker_unsupported_def)
    show ?thesis
    proof (cases "inversion_condition base config")
      case True
      then show ?thesis
        using Some Cons.IH [OF pre]
        by (auto simp: spec_call_def inversion_condition_def
            setObjectTransform_def)
    next
      case False
      with sup have "FrameInWhichToMoveObject config = base"
        by (simp add: unsupported_configuration_def)
      with False show ?thesis
        using Some Cons.IH [OF pre]
        by (auto simp: spec_call_def inversion_condition_def
            setObjectTransform_def)
    qed
  qed
qed

lemma run_one_markers_unsupported_head:
  "marker_unsupported base cfg m \<Longrightarrow>
   run_one_markers c base cfg (m # rest) calls = (Inl (runtime_error unsupported_message), calls)"
  by (auto simp: marker_unsupported_def unsupported_configuration_def inversion_condition_def
      split: option.splits)

lemma run_one_reaches_markers:
  "tick_reaches_markers s frame \<Longrightarrow>
   run_one c s calls =
     run_one_markers c (m_opticalTrackerBase s) (m_geometryIDToVrepMotionConfigMap s)
       (Markers frame) calls"
  by (auto simp: tick_reaches_markers_def run_one_def)

lemma run_one_markers_takeWhile:
  "run_one_markers c base cfg markers calls =
     (if \<exists>m\<in>set markers. marker_unsupported base cfg m
      then Inl (runtime_error unsupported_message) else Inr (),
      calls @ List.map_filter (spec_call c base cfg)
                (takeWhile (\<lambda>m. \<not> marker_unsupported base cfg m) markers))"
proof -
  let ?ok = "\<lambda>m. \<not> marker_unsupported base cfg m"
  have split: "markers = takeWhile ?ok markers @ dropWhile ?ok markers" by simp
  have pre: "\<forall>m\<in>set (takeWhile ?ok markers). \<not> marker_unsupported base cfg m"
    by (auto dest: set_takeWhileD)
  have "run_one_markers c base cfg markers calls =
        run_one_markers c base cfg (dropWhile ?ok markers)
          (calls @ List.map_filter (spec_call c base cfg) (takeWhile ?ok markers))"
    using run_one_markers_supported_prefix [OF pre, of c "dropWhile ?ok markers" calls] by simp
  also have "\<dots> = (if \<exists>m\<in>set markers. marker_unsupported base cfg m
      then Inl (runtime_error unsupported_message) else Inr (),
      calls @ List.map_filter (spec_call c base cfg) (takeWhile ?ok markers))"
  proof (cases "dropWhile ?ok markers")
    case Nil
    then have "\<forall>m\<in>set markers. ?ok m" by simp
    then show ?thesis unfolding Nil by simp
  next
    case (Cons m rest)
    then have bad: "marker_unsupported base cfg m"
      using hd_dropWhile [of ?ok markers] by auto
    have "m \<in> set markers"
      using Cons set_dropWhileD [of m ?ok markers] by simp
    with bad show ?thesis
      unfolding Cons run_one_markers_unsupported_head [OF bad] by auto
  qed
  finally show ?thesis .
qed

lemma length_takeWhile_le_failing_index:
  assumes "k < length xs" and "\<not> P (xs ! k)"
  shows "length (takeWhile P xs) \<le> k"
proof (rule ccontr)
  assume "\<not> length (takeWhile P xs) \<le> k"
  then have lt: "k < length (takeWhile P xs)" by simp
  then have "takeWhile P xs ! k = xs ! k" by (rule takeWhile_nth)
  moreover from lt have "takeWhile P xs ! k \<in> set (takeWhile P xs)" by simp
  ultimately have "P (xs ! k)" by (auto dest: set_takeWhileD)
  with assms(2) show False by simp
qed

section \<open>Evaluation on the sample worlds\<close>

lemmas sample_eval =
  sample_start_def sample_collaborators_def sample_getHandle_def sample_lexical_cast_int_def
  sample_empty_frame_def sample_frame55_def sample_frame_mixed_def
  initial_world_def AtracsysFusionTrackVrepPlugin_def emptyDefaultParams_def
  step_def settle_def construct_def initHandles_def MotionConfigParamsToVrepHandleConfigMap_def
  add_object_def MotionConfigParamsAddConfig_def update_step_def update_try_def
  update_body_def toFlatBuffer_def fatal_def Let_def

lemma sample_world55_plugin:
  "plugin_of sample_world55 =
     \<lparr>plugin_params = emptyDefaultParams, m_opticalTrackerBase = 1, opticalTrackerP = True,
      allHandlesSet = True, isConnectionEstablished = True,
      m_receivedFrame = Some sample_frame55, m_nextState = Some sample_empty_frame,
      m_logFileBufferBuilderP = None, m_KUKAiiwaFusionTrackMessageBufferP = None,
      m_shouldStop = False, m_isRecording = False, exceptionPtr = None,
      m_driverThread = Some \<lparr>phase = Looping, driver_joinable = True\<rparr>,
      m_saveRecordingThreads = [],
      m_geometryIDToVrepMotionConfigMap = [55 \<mapsto> (1, 2, 2)]\<rparr>"
  by (simp add: sample_world55_def sample_eval)

lemma sample_world_mixed_plugin:
  "plugin_of sample_world_mixed =
     \<lparr>plugin_params = emptyDefaultParams, m_opticalTrackerBase = 1, opticalTrackerP = True,
      allHandlesSet = True, isConnectionEstablished = True,
      m_receivedFrame = Some sample_frame_mixed, m_nextState = Some sample_empty_frame,
      m_logFileBufferBuilderP = None, m_KUKAiiwaFusionTrackMessageBufferP = None,
      m_shouldStop = False, m_isRecording = False, exceptionPtr = None,
      m_driverThread = Some \<lparr>phase = Looping, driver_joinable = True\<rparr>,
      m_saveRecordingThreads = [],
      m_geometryIDToVrepMotionConfigMap = [55 \<mapsto> (1, 2, 2), 22 \<mapsto> (3, 2, 3)]\<rparr>"
  by (simp add: sample_world_mixed_def sample_eval)

lemmas spec_eval =
  tick_reaches_markers_def marker_unsupported_def unsupported_configuration_def
  inversion_condition_def spec_call_def ObjectToMove_def FrameInWhichToMoveObject_def
  ObjectBeingMeasured_def

lemma sample_world_failed_plugin:
  "plugin_of sample_world_failed =
     \<lparr>plugin_params = emptyDefaultParams, m_opticalTrackerBase = 1, opticalTrackerP = False,
      allHandlesSet = True, isConnectionEstablished = False,
      m_receivedFrame = None, m_nextState = None,
      m_logFileBufferBuilderP = None, m_KUKAiiwaFusionTrackMessageBufferP = None,
      m_shouldStop = True, m_isRecording = False, exceptionPtr = Some (device_error ''no device''),
      m_driverThread = Some \<lparr>phase = Looping, driver_joinable = True\<rparr>,
      m_saveRecordingThreads = [],
      m_geometryIDToVrepMotionConfigMap = Map.empty\<rparr>"
  by (simp add: sample_world_failed_def sample_eval)

lemma sample_world_recorded_plugin:
  "plugin_of sample_world_recorded =
     \<lparr>plugin_params = emptyDefaultParams, m_opticalTrackerBase = 1, opticalTrackerP = True,
      allHandlesSet = True, isConnectionEstablished = True,
      m_receivedFrame = Some sample_frame55, m_nextState = Some sample_empty_frame,
      m_logFileBufferBuilderP = Some [sample_frame55],
      m_KUKAiiwaFusionTrackMessageBufferP = Some [0],
      m_shouldStop = False, m_isRecording = True, exceptionPtr = None,
      m_driverThread = Some \<lparr>phase = Looping, driver_joinable = True\<rparr>,
      m_saveRecordingThreads = [],
      m_geometryIDToVrepMotionConfigMap = [55 \<mapsto> (1, 2, 2)]\<rparr>"
  by (simp add: sample_world_recorded_def sample_eval start_recording_def)

lemma sample_world_recorded_rest:
  "aborted sample_world_recorded = None" "files sample_world_recorded = Map.empty"
  by (simp_all add: sample_world_recorded_def sample_eval start_recording_def)

section \<open>Claims about the update step\<close>

text \<open>
  Claim C1. When \<open>run_one\<close> reaches its loop over the markers of the current frame, its
  calls of \<open>setObjectTransform\<close> are, in the order of the markers up to the first
  unsupported one, one call per marker that has an entry in the map, with
  (object to move, frame to move within, transform), where the transform is the inverse of
  the measured one exactly when the inversion condition holds (\<open>spec_call\<close>). In
  particular, with geometry id 55 added as (OpticalTrackerBase#0, Fiducial#55, Fiducial#55)
  and a received frame whose only marker has geometry id 55, one call of \<open>run_one\<close> makes
  exactly one call, with the handles of OpticalTrackerBase#0 and Fiducial#55 and the inverse
  of the marker's transform.
\<close>

theorem run_one_inverts_exactly_when_configured:
  "(tick_reaches_markers s frame \<longrightarrow>
      run_one c s calls =
        (if \<exists>m\<in>set (Markers frame).
               marker_unsupported (m_opticalTrackerBase s) (m_geometryIDToVrepMotionConfigMap s) m
         then Inl (runtime_error unsupported_message) else Inr (),
         calls @ List.map_filter
                   (spec_call c (m_opticalTrackerBase s) (m_geometryIDToVrepMotionConfigMap s))
                   (takeWhile (\<lambda>m. \<not> marker_unsupported (m_opticalTrackerBase s)
                                         (m_geometryIDToVrepMotionConfigMap s) m)
                      (Markers frame)))) \<and>
   (getHandle c ''OpticalTrackerBase#0'' = Inr b \<and> getHandle c ''Fiducial#55'' = Inr f \<and>
    lexical_cast_int c ''55'' = Inr 55 \<and> Markers frame55 = [marker] \<and> geometryId marker = 55 \<longrightarrow>
      vrep_calls
        (run_events c
           [Construct,
            AddObject (''OpticalTrackerBase#0'', ''Fiducial#55'', ''Fiducial#55'', ''55''),
            DriverStep (Connected f1 f2) rx,
            DriverStep co (Inr frame55),
            RunOne]
           (initial_world emptyDefaultParams recording0)) =
        [(b, f, affine_inverse c (ftkMarkerToAffine3f c marker))])"
proof (intro conjI impI)
  assume "tick_reaches_markers s frame"
  then show "run_one c s calls =
        (if \<exists>m\<in>set (Markers frame).
               marker_unsupported (m_opticalTrackerBase s) (m_geometryIDToVrepMotionConfigMap s) m
         then Inl (runtime_error unsupported_message) else Inr (),
         calls @ List.map_filter
                   (spec_call c (m_opticalTrackerBase s) (m_geometryIDToVrepMotionConfigMap s))
                   (takeWhile (\<lambda>m. \<not> marker_unsupported (m_opticalTrackerBase s)
                                         (m_geometryIDToVrepMotionConfigMap s) m)
                      (Markers frame)))"
    by (simp only: run_one_reaches_markers run_one_markers_takeWhile)
next
  assume h: "getHandle c ''OpticalTrackerBase#0'' = Inr b \<and> getHandle c ''Fiducial#55'' = Inr f \<and>
    lexical_cast_int c ''55'' = Inr 55 \<and> Markers frame55 = [marker] \<and> geometryId marker = 55"
  then show "vrep_calls
        (run_events c
           [Construct,
            AddObject (''OpticalTrackerBase#0'', ''Fiducial#55'', ''Fiducial#55'', ''55''),
            DriverStep (Connected f1 f2) rx,
            DriverStep co (Inr frame55),
            RunOne]
           (initial_world emptyDefaultParams recording0)) =
        [(b, f, affine_inverse c (ftkMarkerToAffine3f c marker))]"
    by (simp add: initial_world_def AtracsysFusionTrackVrepPlugin_def emptyDefaultParams_def
        step_def settle_def construct_def initHandles_def MotionConfigParamsToVrepHandleConfigMap_def
        add_object_def MotionConfigParamsAddConfig_def update_step_def update_try_def
        update_body_def toFlatBuffer_def run_one_def setObjectTransform_def
        ObjectToMove_def FrameInWhichToMoveObject_def ObjectBeingMeasured_def fatal_def Let_def)
qed

theorem run_one_inverts_exactly_when_configured_witness:
  "tick_reaches_markers (plugin_of sample_world55) sample_frame55 \<and>
   run_one sample_collaborators (plugin_of sample_world55) [] = (Inr (), [(1, 2, - 7)]) \<and>
   vrep_calls (step sample_collaborators RunOne sample_world55) = [(1, 2, - 7)]"
proof -
  have reach: "tick_reaches_markers (plugin_of sample_world55) sample_frame55"
    by (simp add: sample_world55_plugin tick_reaches_markers_def)
  have run: "run_one sample_collaborators (plugin_of sample_world55) [] = (Inr (), [(1, 2, - 7)])"
    using run_one_inverts_exactly_when_configured [of "plugin_of sample_world55" sample_frame55 sample_collaborators "[]"] reach
    by (simp add: sample_world55_plugin sample_frame55_def spec_eval sample_collaborators_def)
  have "vrep_calls (step sample_collaborators RunOne sample_world55) = [(1, 2, - 7)]"
    using run_one_inverts_exactly_when_configured [of _ _ sample_collaborators _ 1 2 sample_frame55
        "\<lparr>geometryId = 55, measurement = 7\<rparr>"
        sample_empty_frame sample_empty_frame "Inr sample_empty_frame"
        "Connected sample_empty_frame sample_empty_frame" False]
    by (simp add: sample_world55_def sample_start_def sample_frame55_def
        sample_collaborators_def sample_getHandle_def sample_lexical_cast_int_def)
  with reach run show ?thesis by simp
qed

text \<open>
  Claim C2. When \<open>run_one\<close> reaches its loop and the marker at position \<open>k\<close> of the frame
  is configured, does not satisfy the inversion condition and has a frame to move within
  other than the tracker base, \<open>run_one\<close> throws the runtime error, and the calls it made
  come from the markers before some position \<open>j \<le> k\<close> only: none is made for that marker.
\<close>

theorem run_one_unsupported_raises:
  "tick_reaches_markers s frame \<and> k < length (Markers frame) \<and>
   marker_unsupported (m_opticalTrackerBase s) (m_geometryIDToVrepMotionConfigMap s)
     (Markers frame ! k) \<longrightarrow>
   (\<exists>j\<le>k. run_one c s calls =
      (Inl (runtime_error unsupported_message),
       calls @ List.map_filter
                 (spec_call c (m_opticalTrackerBase s) (m_geometryIDToVrepMotionConfigMap s))
                 (take j (Markers frame))))"
proof
  let ?bad = "marker_unsupported (m_opticalTrackerBase s) (m_geometryIDToVrepMotionConfigMap s)"
  let ?ok = "\<lambda>m. \<not> ?bad m"
  let ?j = "length (takeWhile ?ok (Markers frame))"
  assume h: "tick_reaches_markers s frame \<and> k < length (Markers frame) \<and> ?bad (Markers frame ! k)"
  then have le: "?j \<le> k"
    using length_takeWhile_le_failing_index [of k "Markers frame" ?ok] by simp
  from h have ex: "\<exists>m\<in>set (Markers frame). ?bad m"
    using nth_mem [of k "Markers frame"] by blast
  have tk: "takeWhile ?ok (Markers frame) = take ?j (Markers frame)"
    by (rule takeWhile_eq_take)
  from h have "run_one c s calls =
      run_one_markers c (m_opticalTrackerBase s) (m_geometryIDToVrepMotionConfigMap s)
        (Markers frame) calls"
    by (simp add: run_one_reaches_markers)
  also have "\<dots> = (Inl (runtime_error unsupported_message),
       calls @ List.map_filter
                 (spec_call c (m_opticalTrackerBase s) (m_geometryIDToVrepMotionConfigMap s))
                 (takeWhile ?ok (Markers frame)))"
    using ex by (simp only: run_one_markers_takeWhile if_True)
  finally have "run_one c s calls = (Inl (runtime_error unsupported_message),
       calls @ List.map_filter
                 (spec_call c (m_opticalTrackerBase s) (m_geometryIDToVrepMotionConfigMap s))
                 (take ?j (Markers frame)))"
    using tk by simp
  with le show "\<exists>j\<le>k. run_one c s calls =
      (Inl (runtime_error unsupported_message),
       calls @ List.map_filter
                 (spec_call c (m_opticalTrackerBase s) (m_geometryIDToVrepMotionConfigMap s))
                 (take j (Markers frame)))"
    by blast
qed

theorem run_one_unsupported_raises_witness:
  "tick_reaches_markers (plugin_of sample_world_mixed) sample_frame_mixed \<and>
   2 < length (Markers sample_frame_mixed) \<and>
   marker_unsupported 1 [55 \<mapsto> (1, 2, 2), 22 \<mapsto> (3, 2, 3)] (Markers sample_frame_mixed ! 2) \<and>
   (\<exists>j\<le>2. run_one sample_collaborators (plugin_of sample_world_mixed) [] =
      (Inl (runtime_error unsupported_message),
       List.map_filter (spec_call sample_collaborators 1 [55 \<mapsto> (1, 2, 2), 22 \<mapsto> (3, 2, 3)])
         (take j (Markers sample_frame_mixed))))"
proof -
  have reach: "tick_reaches_markers (plugin_of sample_world_mixed) sample_frame_mixed"
    by (simp add: sample_world_mixed_plugin tick_reaches_markers_def)
  have len: "2 < length (Markers sample_frame_mixed)"
    by (simp add: sample_frame_mixed_def)
  have bad: "marker_unsupported 1 [55 \<mapsto> (1, 2, 2), 22 \<mapsto> (3, 2, 3)] (Markers sample_frame_mixed ! 2)"
    by (simp add: sample_frame_mixed_def spec_eval)
  show ?thesis
    using run_one_unsupported_raises [of "plugin_of sample_world_mixed" sample_frame_mixed 2 sample_collaborators "[]"]
      reach len bad
    by (simp add: sample_world_mixed_plugin)
qed

text \<open>
  Claim C10. When the first unsupported marker of the frame is \<open>k\<close>, after the markers
  \<open>pre\<close>, \<open>run_one\<close> throws having called \<open>setObjectTransform\<close> for every configured
  marker of \<open>pre\<close>, in order, and for no marker at or after \<open>k\<close>; the calls stay in the
  simulator's log and the process goes on.
\<close>

theorem run_one_partial_updates_kept:
  "tick_reaches_markers s frame \<and> Markers frame = pre @ k # post \<and>
   (\<forall>m\<in>set pre. \<not> marker_unsupported (m_opticalTrackerBase s)
                      (m_geometryIDToVrepMotionConfigMap s) m) \<and>
   marker_unsupported (m_opticalTrackerBase s) (m_geometryIDToVrepMotionConfigMap s) k \<longrightarrow>
   run_one c s calls =
     (Inl (runtime_error unsupported_message),
      calls @ List.map_filter
                (spec_call c (m_opticalTrackerBase s) (m_geometryIDToVrepMotionConfigMap s)) pre) \<and>
   (aborted w = None \<and> plugin_of w = s \<longrightarrow>
      vrep_calls (step c RunOne w) =
        vrep_calls w @ List.map_filter
                (spec_call c (m_opticalTrackerBase s) (m_geometryIDToVrepMotionConfigMap s)) pre \<and>
      aborted (step c RunOne w) = None)"
proof
  let ?base = "m_opticalTrackerBase s" and ?cfg = "m_geometryIDToVrepMotionConfigMap s"
  assume h: "tick_reaches_markers s frame \<and> Markers frame = pre @ k # post \<and>
   (\<forall>m\<in>set pre. \<not> marker_unsupported ?base ?cfg m) \<and> marker_unsupported ?base ?cfg k"
  have run: "run_one c s calls' =
     (Inl (runtime_error unsupported_message), calls' @ List.map_filter (spec_call c ?base ?cfg) pre)"
    for calls'
  proof -
    from h have r: "tick_reaches_markers s frame" and mk: "Markers frame = pre @ k # post"
      and ok: "\<forall>m\<in>set pre. \<not> marker_unsupported ?base ?cfg m"
      and bad: "marker_unsupported ?base ?cfg k"
      by simp_all
    have "run_one c s calls' = run_one_markers c ?base ?cfg (pre @ k # post) calls'"
      using run_one_reaches_markers [OF r, of c calls'] mk by simp
    also have "\<dots> = run_one_markers c ?base ?cfg (k # post)
        (calls' @ List.map_filter (spec_call c ?base ?cfg) pre)"
      by (rule run_one_markers_supported_prefix [OF ok])
    also have "\<dots> = (Inl (runtime_error unsupported_message),
        calls' @ List.map_filter (spec_call c ?base ?cfg) pre)"
      by (rule run_one_markers_unsupported_head [OF bad])
    finally show ?thesis .
  qed
  show "run_one c s calls =
     (Inl (runtime_error unsupported_message), calls @ List.map_filter (spec_call c ?base ?cfg) pre) \<and>
   (aborted w = None \<and> plugin_of w = s \<longrightarrow>
      vrep_calls (step c RunOne w) =
        vrep_calls w @ List.map_filter (spec_call c ?base ?cfg) pre \<and>
      aborted (step c RunOne w) = None)"
    using run [of calls] run [of "vrep_calls w"]
    by (simp add: step_def settle_def fatal_def)
qed

theorem run_one_partial_updates_kept_witness:
  "tick_reaches_markers (plugin_of sample_world_mixed) sample_frame_mixed \<and>
   Markers sample_frame_mixed =
     [\<lparr>geometryId = 55, measurement = 7\<rparr>, \<lparr>geometryId = 9, measurement = 4\<rparr>] @
     \<lparr>geometryId = 22, measurement = 5\<rparr> # [\<lparr>geometryId = 55, measurement = 8\<rparr>] \<and>
   run_one sample_collaborators (plugin_of sample_world_mixed) [] =
     (Inl (runtime_error unsupported_message), [(1, 2, - 7)]) \<and>
   vrep_calls (step sample_collaborators RunOne sample_world_mixed) = [(1, 2, - 7)] \<and>
   aborted (step sample_collaborators RunOne sample_world_mixed) = None"
proof -
  have reach: "tick_reaches_markers (plugin_of sample_world_mixed) sample_frame_mixed"
    by (simp add: sample_world_mixed_plugin tick_reaches_markers_def)
  have w: "aborted sample_world_mixed = None" "vrep_calls sample_world_mixed = []"
    by (simp_all add: sample_world_mixed_def sample_eval)
  show ?thesis
    using run_one_partial_updates_kept [of "plugin_of sample_world_mixed" sample_frame_mixed
        "[\<lparr>geometryId = 55, measurement = 7\<rparr>, \<lparr>geometryId = 9, measurement = 4\<rparr>]"
        "\<lparr>geometryId = 22, measurement = 5\<rparr>" "[\<lparr>geometryId = 55, measurement = 8\<rparr>]"
        sample_collaborators "[]" sample_world_mixed] reach w
    by (simp add: sample_world_mixed_plugin sample_frame_mixed_def spec_eval sample_collaborators_def)
qed

text \<open>
  Claim C4, as amended. A call of \<open>run_one\<close> made while the connection is not established
  and no fault has been captured is a no-op: it returns normally, calls no collaborator and
  leaves the world as it is. When a fault has been captured, the call throws that fault,
  also while the connection is not established.
\<close>

theorem run_one_not_connected:
  "\<not> isConnectionEstablished s \<longrightarrow>
     (exceptionPtr s = None \<longrightarrow>
        run_one c s calls = (Inr (), calls) \<and> (plugin_of w = s \<longrightarrow> step c RunOne w = w)) \<and>
     (\<forall>e. exceptionPtr s = Some e \<longrightarrow> run_one c s calls = (Inl e, calls))"
  by (auto simp: run_one_def step_def settle_def)

theorem run_one_not_connected_witness:
  "\<not> isConnectionEstablished (AtracsysFusionTrackVrepPlugin emptyDefaultParams False :: int plugin) \<and>
   run_one sample_collaborators (AtracsysFusionTrackVrepPlugin emptyDefaultParams False) [] = (Inr (), []) \<and>
   step sample_collaborators RunOne (initial_world emptyDefaultParams False) =
     initial_world emptyDefaultParams False \<and>
   \<not> isConnectionEstablished (plugin_of sample_world_failed) \<and>
   run_one sample_collaborators (plugin_of sample_world_failed) [(1, 2, 3)] =
     (Inl (device_error ''no device''), [(1, 2, 3)])"
proof -
  have a: "\<not> isConnectionEstablished (AtracsysFusionTrackVrepPlugin emptyDefaultParams False :: int plugin)"
    "exceptionPtr (AtracsysFusionTrackVrepPlugin emptyDefaultParams False :: int plugin) = None"
    "plugin_of (initial_world emptyDefaultParams False :: (int, int) world) =
       AtracsysFusionTrackVrepPlugin emptyDefaultParams False"
    by (simp_all add: AtracsysFusionTrackVrepPlugin_def initial_world_def)
  have b: "\<not> isConnectionEstablished (plugin_of sample_world_failed)"
    "exceptionPtr (plugin_of sample_world_failed) = Some (device_error ''no device'')"
    by (simp_all add: sample_world_failed_plugin)
  show ?thesis
    using run_one_not_connected [of "AtracsysFusionTrackVrepPlugin emptyDefaultParams False" sample_collaborators
        "[]" "initial_world emptyDefaultParams False"]
      run_one_not_connected [of "plugin_of sample_world_failed" sample_collaborators "[(1, 2, 3)]"] a b
    by simp
qed

text \<open>
  Claim C4 as stated fails: after \<open>construct\<close> and a failed connection, the connection is
  not established and \<open>run_one\<close> throws the device's error.
\<close>

theorem run_one_raises_before_connection:
  "\<not> isConnectionEstablished (plugin_of sample_world_failed) \<and>
   fst (run_one sample_collaborators (plugin_of sample_world_failed) []) =
     Inl (device_error ''no device'')"
  by (simp add: sample_world_failed_plugin run_one_def)

section \<open>Claims about the configuration map\<close>

text \<open>
  Claim C5. After any sequence of \<open>add_object\<close>, \<open>remove_geometry\<close> and \<open>clear_objects\<close>
  calls, the map sends a geometry id to a configuration exactly when some add in the
  sequence added that id with that configuration and no later call of the sequence removed,
  cleared or added that id again (or the entry was there before the sequence and no call
  touched the id). Removing an id that has no entry leaves the plugin as it is and does not
  throw.
\<close>

theorem config_map_last_write_wins:
  "(m_geometryIDToVrepMotionConfigMap (config_calls c calls s) g = Some cfg \<longleftrightarrow>
      (\<exists>pre call post. calls = pre @ call # post \<and> spec_adds c call g cfg \<and>
         (\<forall>x\<in>set post. \<not> spec_touches c x g)) \<or>
      (m_geometryIDToVrepMotionConfigMap s g = Some cfg \<and>
         (\<forall>x\<in>set calls. \<not> spec_touches c x g))) \<and>
   (m_geometryIDToVrepMotionConfigMap s g = None \<longrightarrow>
      remove_geometry g s = s \<and>
      (lexical_cast_int c str = Inr g \<longrightarrow> remove_geometry_string c str s = (Inr (), s)))"
proof (intro conjI impI)
  show "m_geometryIDToVrepMotionConfigMap (config_calls c calls s) g = Some cfg \<longleftrightarrow>
      (\<exists>pre call post. calls = pre @ call # post \<and> spec_adds c call g cfg \<and>
         (\<forall>x\<in>set post. \<not> spec_touches c x g)) \<or>
      (m_geometryIDToVrepMotionConfigMap s g = Some cfg \<and>
         (\<forall>x\<in>set calls. \<not> spec_touches c x g))"
    by (rule calls_map_iff)
next
  assume absent: "m_geometryIDToVrepMotionConfigMap s g = None"
  then have "(m_geometryIDToVrepMotionConfigMap s)(g := None) = m_geometryIDToVrepMotionConfigMap s"
    by (simp add: fun_upd_idem)
  then show r: "remove_geometry g s = s" by (simp add: remove_geometry_def)
  assume "lexical_cast_int c str = Inr g"
  with r show "remove_geometry_string c str s = (Inr (), s)"
    by (simp add: remove_geometry_string_def)
qed

theorem config_map_last_write_wins_witness:
  "m_geometryIDToVrepMotionConfigMap
     (config_calls sample_collaborators sample_config_calls
        (AtracsysFusionTrackVrepPlugin emptyDefaultParams False :: int plugin)) 55 = Some (1, 2, 2) \<and>
   m_geometryIDToVrepMotionConfigMap
     (AtracsysFusionTrackVrepPlugin emptyDefaultParams False :: int plugin) 7 = None \<and>
   remove_geometry 7 (AtracsysFusionTrackVrepPlugin emptyDefaultParams False :: int plugin) =
     AtracsysFusionTrackVrepPlugin emptyDefaultParams False"
proof -
  let ?s = "AtracsysFusionTrackVrepPlugin emptyDefaultParams False :: int plugin"
  have m0: "m_geometryIDToVrepMotionConfigMap ?s = Map.empty"
    by (simp add: AtracsysFusionTrackVrepPlugin_def)
  let ?pre = "[add_object_call (''Fiducial#22'', ''OpticalTrackerBase#0'', ''Fiducial#22'', ''55'')]"
  let ?call = "add_object_call (''OpticalTrackerBase#0'', ''Fiducial#55'', ''Fiducial#55'', ''55'')"
  let ?post = "[add_object_call (''Fiducial#22'', ''OpticalTrackerBase#0'', ''Fiducial#22'', ''22''),
                remove_geometry_string_call ''22'', remove_geometry_call 7]"
  have "sample_config_calls = ?pre @ ?call # ?post \<and>
      spec_adds sample_collaborators ?call 55 (1, 2, 2) \<and>
      (\<forall>x\<in>set ?post. \<not> spec_touches sample_collaborators x 55)"
    by (simp add: sample_config_calls_def spec_touches_def sample_collaborators_def
        sample_getHandle_def sample_lexical_cast_int_def)
  then have dec: "\<exists>pre call post. sample_config_calls = pre @ call # post \<and>
      spec_adds sample_collaborators call 55 (1, 2, 2) \<and>
      (\<forall>x\<in>set post. \<not> spec_touches sample_collaborators x 55)"
    by blast
  have v: "m_geometryIDToVrepMotionConfigMap
     (config_calls sample_collaborators sample_config_calls ?s) 55 = Some (1, 2, 2)"
    using config_map_last_write_wins [of sample_collaborators sample_config_calls ?s 55 "(1, 2, 2)"]
      dec by blast
  from v m0 show ?thesis
    using config_map_last_write_wins [of sample_collaborators "[]" ?s 7]
    by simp
qed

section \<open>Claims about faults of the acquisition thread\<close>

lemma initHandles_keeps:
  "fault_kept e rf ns s \<Longrightarrow> fault_kept e rf ns (snd (initHandles c s))"
  by (auto simp: fault_kept_def initHandles_def Let_def split: sum.splits)

lemma construct_keeps:
  "fault_kept e rf ns s \<Longrightarrow> fault_kept e rf ns (snd (construct c s))"
proof -
  assume k: "fault_kept e rf ns s"
  obtain r s1 where i: "initHandles c s = (r, s1)" by (cases "initHandles c s")
  with initHandles_keeps [OF k, of c] have k1: "fault_kept e rf ns s1" by simp
  then show ?thesis
    using i by (cases r) (auto simp: construct_def fault_kept_def)
qed

lemma update_step_keeps:
  "fault_kept e rf ns s \<Longrightarrow>
   update_step co rx s = (Inr (), s\<lparr>m_driverThread := Some \<lparr>phase = Exited, driver_joinable = True\<rparr>\<rparr>)"
  by (auto simp: fault_kept_def update_step_def)

lemma step_keeps:
  assumes "fault_kept e rf ns (plugin_of w)" and "\<not> is_Destruct ev"
  shows "fault_kept e rf ns (plugin_of (step c ev w))"
proof (cases "aborted w = None")
  case False
  with assms show ?thesis by (simp add: step_def)
next
  case True
  note k = assms(1)
  show ?thesis
  proof (cases ev)
    case Construct
    with True construct_keeps [OF k, of c] show ?thesis by (simp add: step_def settle_def)
  next
    case (Destruct co)
    with assms(2) show ?thesis by simp
  next
    case (AddObject mcp)
    with True k show ?thesis
      by (auto simp: step_def settle_def add_object_def fault_kept_def split: sum.splits)
  next
    case ClearObjects
    with True k show ?thesis by (auto simp: step_def clear_objects_def fault_kept_def)
  next
    case (RemoveGeometry g)
    with True k show ?thesis by (auto simp: step_def remove_geometry_def fault_kept_def)
  next
    case (RemoveGeometryString g)
    with True k show ?thesis
      by (auto simp: step_def settle_def remove_geometry_string_def remove_geometry_def
          fault_kept_def split: sum.splits)
  next
    case IsActive
    with True k show ?thesis by (simp add: step_def)
  next
    case IsRecording
    with True k show ?thesis by (simp add: step_def)
  next
    case RunOne
    with True k show ?thesis by (simp add: step_def settle_def split: prod.splits)
  next
    case StartRecording
    with True k show ?thesis by (auto simp: step_def start_recording_def fault_kept_def)
  next
    case StopRecording
    with True k show ?thesis by (auto simp: step_def stop_recording_def fault_kept_def)
  next
    case (SaveRecording filename now)
    with True k show ?thesis
      by (auto simp: step_def settle_def save_recording_def fault_kept_def Let_def)
  next
    case ClearRecording
    with True k show ?thesis by (auto simp: step_def clear_recording_def fault_kept_def)
  next
    case (DriverStep co rx)
    with True k update_step_keeps [OF k, of co rx] show ?thesis
      by (auto simp: step_def settle_def fault_kept_def)
  next
    case (SaveStep i)
    with True k show ?thesis
      by (auto simp: step_def save_step_def fault_kept_def Let_def split: sum.splits)
  qed
qed

lemma run_events_keeps:
  "fault_kept e rf ns (plugin_of w) \<Longrightarrow> \<forall>ev\<in>set evs. \<not> is_Destruct ev \<Longrightarrow>
   fault_kept e rf ns (plugin_of (run_events c evs w))"
proof (induction evs arbitrary: w)
  case Nil
  then show ?case by simp
next
  case (Cons ev evs)
  from Cons.prems have "fault_kept e rf ns (plugin_of (step c ev w))"
    by (simp add: step_keeps)
  with Cons show ?case by simp
qed

lemma capture_establishes:
  assumes "aborted w0 = None"
    and "m_driverThread (plugin_of w0) = Some \<lparr>phase = Starting, driver_joinable = True\<rparr>"
    and "connect_fault co = Some e"
  shows "fault_kept e (m_receivedFrame (plugin_of (step c (DriverStep co rx) w0)))
           (m_nextState (plugin_of (step c (DriverStep co rx) w0)))
           (plugin_of (step c (DriverStep co rx) w0))"
  using assms
  by (cases co) (auto simp: step_def settle_def update_step_def update_try_def fault_kept_def)

text \<open>
  A failure of \<open>receive\<close> is not captured: the exception leaves \<open>update\<close>, and
  \<open>exceptionPtr\<close> stays as it was.
\<close>

lemma receive_failure_not_captured:
  "m_driverThread s = Some th \<Longrightarrow> phase th = Looping \<Longrightarrow> \<not> m_shouldStop s \<Longrightarrow>
   opticalTrackerP s \<Longrightarrow> m_nextState s \<noteq> None \<Longrightarrow>
   update_step co (Inl e) s =
     (Inl terminate_called, s\<lparr>m_driverThread := Some (th\<lparr>phase := Crashed\<rparr>)\<rparr>)"
  by (simp add: update_step_def update_body_def)

text \<open>
  The members other than \<open>run_one\<close> and \<open>is_active\<close> never read \<open>exceptionPtr\<close>: what
  \<open>add_object\<close> and \<open>remove_geometry\<close> with a string return does not depend on it (the
  other configuration and recording members have no error to return at all).
\<close>

lemma configuration_calls_ignore_fault:
  "fst (add_object c mcp (s\<lparr>exceptionPtr := x\<rparr>)) = fst (add_object c mcp s)"
  "fst (remove_geometry_string c g (s\<lparr>exceptionPtr := x\<rparr>)) = fst (remove_geometry_string c g s)"
  by (simp_all add: add_object_def remove_geometry_string_def split: sum.splits)

text \<open>
  Claim C3, as amended. Once the acquisition thread has captured a fault of the connection,
  then after any events other than \<open>destruct\<close> the same fault is still stored and the stop
  flag is still set, the two frames are unchanged, a step of the acquisition thread does
  nothing but return from \<open>update\<close>, every call of \<open>run_one\<close> throws that same fault, and
  \<open>is_active\<close> is false.
\<close>

theorem fault_is_terminal_for_run_one:
  "aborted w0 = None \<and>
   m_driverThread (plugin_of w0) = Some \<lparr>phase = Starting, driver_joinable = True\<rparr> \<and>
   connect_fault co = Some e \<and> (\<forall>ev\<in>set evs. \<not> is_Destruct ev) \<longrightarrow>
   (let w1 = step c (DriverStep co rx) w0; s = plugin_of (run_events c evs w1) in
      exceptionPtr s = Some e \<and> m_shouldStop s \<and>
      m_receivedFrame s = m_receivedFrame (plugin_of w1) \<and>
      m_nextState s = m_nextState (plugin_of w1) \<and>
      update_step co' rx' s =
        (Inr (), s\<lparr>m_driverThread := Some \<lparr>phase = Exited, driver_joinable = True\<rparr>\<rparr>) \<and>
      run_one c s calls = (Inl e, calls) \<and> \<not> is_active s)"
proof
  assume h: "aborted w0 = None \<and>
   m_driverThread (plugin_of w0) = Some \<lparr>phase = Starting, driver_joinable = True\<rparr> \<and>
   connect_fault co = Some e \<and> (\<forall>ev\<in>set evs. \<not> is_Destruct ev)"
  define w1 where "w1 = step c (DriverStep co rx) w0"
  define s where "s = plugin_of (run_events c evs w1)"
  from h have "fault_kept e (m_receivedFrame (plugin_of w1)) (m_nextState (plugin_of w1)) (plugin_of w1)"
    unfolding w1_def by (simp add: capture_establishes)
  with h have k: "fault_kept e (m_receivedFrame (plugin_of w1)) (m_nextState (plugin_of w1)) s"
    unfolding s_def by (simp add: run_events_keeps)
  then have "exceptionPtr s = Some e \<and> m_shouldStop s \<and>
      m_receivedFrame s = m_receivedFrame (plugin_of w1) \<and>
      m_nextState s = m_nextState (plugin_of w1) \<and>
      run_one c s calls = (Inl e, calls) \<and> \<not> is_active s"
    by (simp add: fault_kept_def run_one_def is_active_def)
  with update_step_keeps [OF k, of co' rx']
  show "let w1 = step c (DriverStep co rx) w0; s = plugin_of (run_events c evs w1) in
      exceptionPtr s = Some e \<and> m_shouldStop s \<and>
      m_receivedFrame s = m_receivedFrame (plugin_of w1) \<and>
      m_nextState s = m_nextState (plugin_of w1) \<and>
      update_step co' rx' s =
        (Inr (), s\<lparr>m_driverThread := Some \<lparr>phase = Exited, driver_joinable = True\<rparr>\<rparr>) \<and>
      run_one c s calls = (Inl e, calls) \<and> \<not> is_active s"
    unfolding Let_def w1_def [symmetric] s_def [symmetric] by simp
qed

theorem fault_is_terminal_for_run_one_witness:
  "aborted (step sample_collaborators Construct (initial_world emptyDefaultParams False :: (int, int) world)) = None \<and>
   m_driverThread (plugin_of (step sample_collaborators Construct
       (initial_world emptyDefaultParams False :: (int, int) world))) =
     Some \<lparr>phase = Starting, driver_joinable = True\<rparr> \<and>
   connect_fault (FirstFramePtrThrows (device_error ''no frame'') :: int connect_outcome) =
     Some (device_error ''no frame'') \<and>
   run_one sample_collaborators
     (plugin_of (run_events sample_collaborators
        [RunOne, AddObject (''OpticalTrackerBase#0'', ''Fiducial#55'', ''Fiducial#55'', ''55''),
         StartRecording,
         DriverStep (Connected sample_empty_frame sample_empty_frame) (Inr sample_frame55),
         Construct, RunOne]
        (step sample_collaborators
           (DriverStep (FirstFramePtrThrows (device_error ''no frame'')) (Inr sample_empty_frame))
           (step sample_collaborators Construct (initial_world emptyDefaultParams False))))) [] =
     (Inl (device_error ''no frame''), [])"
proof -
  let ?w0 = "step sample_collaborators Construct (initial_world emptyDefaultParams False :: (int, int) world)"
  have a: "aborted ?w0 = None"
    "m_driverThread (plugin_of ?w0) = Some \<lparr>phase = Starting, driver_joinable = True\<rparr>"
    by (simp_all add: sample_eval)
  have b: "connect_fault (FirstFramePtrThrows (device_error ''no frame'') :: int connect_outcome) =
     Some (device_error ''no frame'')" by simp
  have d: "\<forall>ev\<in>set [RunOne, AddObject (''OpticalTrackerBase#0'', ''Fiducial#55'', ''Fiducial#55'', ''55''),
                StartRecording,
                DriverStep (Connected sample_empty_frame sample_empty_frame) (Inr sample_frame55),
                Construct, RunOne]. \<not> is_Destruct ev" by simp
  from a b d show ?thesis
    using fault_is_terminal_for_run_one [of ?w0 "FirstFramePtrThrows (device_error ''no frame'')" "device_error ''no frame''"
        "[RunOne, AddObject (''OpticalTrackerBase#0'', ''Fiducial#55'', ''Fiducial#55'', ''55''),
          StartRecording,
          DriverStep (Connected sample_empty_frame sample_empty_frame) (Inr sample_frame55),
          Construct, RunOne]"
        sample_collaborators "Inr sample_empty_frame" _ _ "[]"]
    unfolding Let_def by blast
qed

text \<open>
  Claim C3 as stated fails: with a fault captured, \<open>add_object\<close> returns normally and does
  not surface it.
\<close>

theorem fault_not_surfaced_by_add_object:
  "exceptionPtr (plugin_of sample_world_failed) = Some (device_error ''no device'') \<and>
   fst (add_object sample_collaborators
          (''OpticalTrackerBase#0'', ''Fiducial#55'', ''Fiducial#55'', ''55'')
          (plugin_of sample_world_failed)) = Inr ()"
  by (simp add: sample_world_failed_plugin add_object_def MotionConfigParamsAddConfig_def
      sample_collaborators_def sample_getHandle_def sample_lexical_cast_int_def)

section \<open>Claims about recording\<close>

lemma save_recording_outcome:
  "fst (save_recording filename now s) = Inl missing_return"
  by (simp add: save_recording_def Let_def)

text \<open>
  Claim C6. On a plugin that is connected and has recorded one frame, the body of
  \<open>save_recording\<close> does what the claim says (the builder and the record sequence are
  moved into a new save thread that has not run, an empty builder and an empty sequence are
  installed, no file is written), but the call does not return: control flows off the end
  of the function, which has no \<open>return\<close> statement, and what the process does next is
  undefined.
\<close>

theorem save_recording_flows_off_end:
  "save_recording ''log.flik'' ''2017-01-01'' (plugin_of sample_world_recorded) =
     (Inl missing_return,
      (plugin_of sample_world_recorded)
        \<lparr>m_saveRecordingThreads :=
           [\<lparr>save_fbbP = Some [sample_frame55],
             save_KUKAiiwaFusionTrackMessageBufferP = Some [0],
             save_filename = ''log.flik'', save_finished = False, save_joinable = True\<rparr>],
         m_logFileBufferBuilderP := Some [],
         m_KUKAiiwaFusionTrackMessageBufferP := Some []\<rparr>) \<and>
   aborted sample_world_recorded = None \<and>
   aborted (step sample_collaborators (SaveRecording ''log.flik'' ''2017-01-01'')
              sample_world_recorded) = Some missing_return \<and>
   files (step sample_collaborators (SaveRecording ''log.flik'' ''2017-01-01'')
            sample_world_recorded) = Map.empty"
  by (simp add: step_def settle_def fatal_def save_recording_def Let_def
      sample_world_recorded_plugin sample_world_recorded_rest)

text \<open>
  Claim C8. With an empty file name, the save thread's file name is the current timestamp
  string followed by \<open>FusionTrack.\<close> and the extension \<open>flik\<close>; a non-empty file name
  is used as given.
\<close>

theorem save_recording_default_filename:
  "(filename = [] \<longrightarrow>
      save_filename (last (m_saveRecordingThreads (snd (save_recording filename now s)))) =
        now @ ''FusionTrack.'' @ ''flik'') \<and>
   (filename \<noteq> [] \<longrightarrow>
      save_filename (last (m_saveRecordingThreads (snd (save_recording filename now s)))) = filename)"
  by (simp add: save_recording_def Let_def)

theorem save_recording_default_filename_witness:
  "save_filename (last (m_saveRecordingThreads
     (snd (save_recording [] ''2017-01-01'' (plugin_of sample_world_recorded))))) =
     ''2017-01-01FusionTrack.flik'' \<and>
   ''log.flik'' \<noteq> [] \<and>
   save_filename (last (m_saveRecordingThreads
     (snd (save_recording ''log.flik'' ''2017-01-01'' (plugin_of sample_world_recorded))))) = ''log.flik''"
  using save_recording_default_filename [of "[]" "''2017-01-01''" "plugin_of sample_world_recorded"]
    save_recording_default_filename [of "''log.flik''" "''2017-01-01''" "plugin_of sample_world_recorded"]
  by simp

text \<open>
  Claim C9. The builder pointer is null after the constructor and after
  \<open>clear_recording\<close>, and a step of the acquisition thread leaves it null while recording
  is off. When it is null, \<open>save_recording\<close> hands a null pointer to the save thread,
  whose body dereferences it: in a world that goes on with the plugin as the call left it,
  the run of that save thread ends the process. When the builder and the record
  sequence are both non-null, the save thread's body writes the file.
\<close>

theorem save_recording_null_buffer:
  "m_logFileBufferBuilderP (AtracsysFusionTrackVrepPlugin params recording0 :: 'p plugin) = None \<and>
   m_logFileBufferBuilderP (clear_recording (s :: 'p plugin)) = None \<and>
   (m_logFileBufferBuilderP s = None \<and> \<not> m_isRecording s \<longrightarrow>
      m_logFileBufferBuilderP (snd (update_step co rx s)) = None) \<and>
   (m_logFileBufferBuilderP s = None \<longrightarrow>
      save_fbbP (last (m_saveRecordingThreads (snd (save_recording filename now s)))) = None \<and>
      saveLambdaFunction (last (m_saveRecordingThreads (snd (save_recording filename now s)))) fl =
        Inl null_dereference \<and>
      (aborted w = None \<and> plugin_of w = s \<longrightarrow>
         aborted (step c (SaveStep (length (m_saveRecordingThreads s)))
                    (w\<lparr>plugin_of := snd (save_recording filename now s)\<rparr>)) =
           Some null_dereference)) \<and>
   (m_logFileBufferBuilderP s = Some fbb \<and> m_KUKAiiwaFusionTrackMessageBufferP s = Some states \<longrightarrow>
      saveLambdaFunction (last (m_saveRecordingThreads (snd (save_recording filename now s)))) fl =
        Inr (fl(save_filename (last (m_saveRecordingThreads (snd (save_recording filename now s))))
                  \<mapsto> (fbb, states))))"
proof (intro conjI impI)
  show "m_logFileBufferBuilderP (AtracsysFusionTrackVrepPlugin params recording0 :: 'p plugin) = None"
    by (simp add: AtracsysFusionTrackVrepPlugin_def)
  show "m_logFileBufferBuilderP (clear_recording s) = None"
    by (simp add: clear_recording_def)
next
  assume "m_logFileBufferBuilderP s = None \<and> \<not> m_isRecording s"
  then show "m_logFileBufferBuilderP (snd (update_step co rx s)) = None"
    by (cases co)
      (auto simp: update_step_def update_try_def update_body_def Let_def
        split: option.splits thread_phase.splits sum.splits)
next
  assume none: "m_logFileBufferBuilderP s = None"
  then show "save_fbbP (last (m_saveRecordingThreads (snd (save_recording filename now s)))) = None"
    by (simp add: save_recording_def Let_def)
  from none show
    "saveLambdaFunction (last (m_saveRecordingThreads (snd (save_recording filename now s)))) fl =
       Inl null_dereference"
    by (simp add: save_recording_def Let_def saveLambdaFunction_def)
  assume "aborted w = None \<and> plugin_of w = s"
  with none show "aborted (step c (SaveStep (length (m_saveRecordingThreads s)))
                    (w\<lparr>plugin_of := snd (save_recording filename now s)\<rparr>)) =
           Some null_dereference"
    by (auto simp: step_def save_step_def save_recording_def Let_def saveLambdaFunction_def)
next
  assume "m_logFileBufferBuilderP s = Some fbb \<and> m_KUKAiiwaFusionTrackMessageBufferP s = Some states"
  then show "saveLambdaFunction (last (m_saveRecordingThreads (snd (save_recording filename now s)))) fl =
        Inr (fl(save_filename (last (m_saveRecordingThreads (snd (save_recording filename now s))))
                  \<mapsto> (fbb, states)))"
    by (simp add: save_recording_def Let_def saveLambdaFunction_def)
qed

theorem save_recording_null_buffer_witness:
  "m_logFileBufferBuilderP (plugin_of sample_world55) = None \<and>
   \<not> m_isRecording (plugin_of sample_world55) \<and>
   aborted sample_world55 = None \<and>
   m_logFileBufferBuilderP
     (snd (update_step (Connected sample_empty_frame sample_empty_frame) (Inr sample_frame55)
        (plugin_of sample_world55))) = None \<and>
   aborted (step sample_collaborators (SaveStep 0)
              (sample_world55
                 \<lparr>plugin_of := snd (save_recording [] ''2017-01-01'' (plugin_of sample_world55))\<rparr>)) =
     Some null_dereference \<and>
   m_logFileBufferBuilderP (plugin_of sample_world_recorded) = Some [sample_frame55] \<and>
   m_KUKAiiwaFusionTrackMessageBufferP (plugin_of sample_world_recorded) = Some [0] \<and>
   saveLambdaFunction
     (last (m_saveRecordingThreads
        (snd (save_recording ''log.flik'' ''2017-01-01'' (plugin_of sample_world_recorded))))) Map.empty =
     Inr [''log.flik'' \<mapsto> ([sample_frame55], [0])]"
proof -
  have a: "m_logFileBufferBuilderP (plugin_of sample_world55) = None"
    "\<not> m_isRecording (plugin_of sample_world55)"
    "m_saveRecordingThreads (plugin_of sample_world55) = []"
    by (simp_all add: sample_world55_plugin)
  have ab: "aborted sample_world55 = None"
    by (simp add: sample_world55_def sample_eval)
  have b: "m_logFileBufferBuilderP (plugin_of sample_world_recorded) = Some [sample_frame55]"
    "m_KUKAiiwaFusionTrackMessageBufferP (plugin_of sample_world_recorded) = Some [0]"
    by (simp_all add: sample_world_recorded_plugin)
  have n: "save_filename (last (m_saveRecordingThreads
        (snd (save_recording ''log.flik'' ''2017-01-01'' (plugin_of sample_world_recorded))))) = ''log.flik''"
    by (simp add: save_recording_def Let_def)
  show ?thesis
    using a ab b n
      save_recording_null_buffer [of emptyDefaultParams False "plugin_of sample_world55"
        "Connected sample_empty_frame sample_empty_frame" "Inr sample_frame55"
        "[]" "''2017-01-01''" Map.empty sample_world55 sample_collaborators "[]" "[]"]
      save_recording_null_buffer [of emptyDefaultParams False "plugin_of sample_world_recorded"
        "Connected sample_empty_frame sample_empty_frame" "Inr sample_frame55"
        "''log.flik''" "''2017-01-01''" Map.empty sample_world_recorded sample_collaborators
        "[sample_frame55]" "[0]"]
    by simp
qed

section \<open>Claims about shutdown\<close>

text \<open>
  Whenever the acquisition thread is joinable and at least one save thread is kept,
  \<open>destruct\<close> throws from its loop and leaves the save threads as they were.
\<close>

lemma update_try_keeps_save_threads:
  "m_saveRecordingThreads (update_try co s) = m_saveRecordingThreads s"
  by (cases co) (simp_all add: update_try_def)

lemma destruct_with_save_threads:
  assumes "m_driverThread s = Some th" and "driver_joinable th" and "phase th \<noteq> Crashed"
    and "m_saveRecordingThreads s \<noteq> []"
  shows "fst (destruct co s) = Inl system_error \<and>
         m_saveRecordingThreads (snd (destruct co s)) = m_saveRecordingThreads s"
proof -
  obtain t ts where ts: "m_saveRecordingThreads s = t # ts"
    using assms(4) by (cases "m_saveRecordingThreads s") auto
  show ?thesis
    using assms(1-3) ts
    by (cases "phase th")
      (simp_all add: destruct_def m_driverThread_join_def Let_def update_try_keeps_save_threads)
qed

text \<open>
  Claim C7. With one save thread outstanding, \<open>destruct\<close> sets the stop flag and joins the
  acquisition thread, and then, in its loop over the save threads, joins the acquisition
  thread again: the call throws \<open>std::system_error\<close> and the save thread is never joined.
\<close>

theorem destruct_rejoins_driver_thread:
  "m_saveRecordingThreads (plugin_of sample_world_saving) =
     [\<lparr>save_fbbP = Some [sample_frame55], save_KUKAiiwaFusionTrackMessageBufferP = Some [0],
       save_filename = ''log.flik'', save_finished = False, save_joinable = True\<rparr>] \<and>
   destruct (Connected sample_empty_frame sample_empty_frame) (plugin_of sample_world_saving) =
     (Inl system_error,
      (plugin_of sample_world_saving)
        \<lparr>m_shouldStop := True,
         m_driverThread := Some \<lparr>phase = Exited, driver_joinable = False\<rparr>\<rparr>)"
  by (simp add: sample_world_saving_def step_def settle_def sample_world_recorded_plugin
      sample_world_recorded_rest save_recording_def Let_def destruct_def m_driverThread_join_def)

end
